theory Spec2Isabelle
  imports Main
begin

section \<open>The Bikram Sambat date type of nepali\_toolkit.datetime\<close>

text \<open>
  A shallow embedding of \<^verbatim>\<open>nepali_toolkit/datetime/__init__.py\<close> and
  \<^verbatim>\<open>nepali_toolkit/datetime/helpers.py\<close>. Python integers are \<open>int\<close>, an
  exception is the \<open>Inl\<close> branch of a sum, \<^verbatim>\<open>None\<close> and
  \<^verbatim>\<open>NotImplemented\<close> are values of their own.

  Two files the code reads are not part of the sources: \<^verbatim>\<open>constants.py\<close>
  (\<^verbatim>\<open>MINYEAR\<close>, \<^verbatim>\<open>MAXYEAR\<close>, \<^verbatim>\<open>NEPAL_TIME_UTC_OFFSET\<close>,
  \<^verbatim>\<open>REFERENCE_DATE_AD\<close>) and \<^verbatim>\<open>data/calender.json\<close> (the table behind
  \<^verbatim>\<open>_CALENDAR\<close>). They are parameters of the model, collected in the record
  \<open>env\<close>.
\<close>

subsection \<open>Values and exceptions\<close>

text \<open>
  The slots of a \<^verbatim>\<open>date\<close> object: \<^verbatim>\<open>_year\<close>, \<^verbatim>\<open>_month\<close>,
  \<^verbatim>\<open>_day\<close>, \<^verbatim>\<open>_hashcode\<close>.
\<close>

record date =
  year :: int
  month :: int
  day :: int
  hashcode :: int

text \<open>
  The Python values that reach the modelled functions. A finite float \<open>PyFloat m e\<close> is
  the number \<open>m * 2 ^ e\<close>; \<open>PyFloatInf\<close> is either infinity. \<open>PyADDate n\<close> is a
  \<^verbatim>\<open>datetime.date\<close> of the standard library, given by its proleptic Gregorian ordinal
  (\<^verbatim>\<open>toordinal()\<close>), and \<open>PyTimedelta n\<close> a \<^verbatim>\<open>timedelta\<close> of \<open>n\<close> days.
\<close>

datatype pyval =
    PyNone
  | PyNotImplemented
  | PyBool bool
  | PyInt int
  | PyFloat int int
  | PyFloatNaN
  | PyFloatInf
  | PyDate date
  | PyADDate int
  | PyTimedelta int

text \<open>
  The exceptions, one constructor for each place that raises:
  \<^item> \<open>TypeError_int\<close>, \<open>ValueError_int\<close>, \<open>OverflowError_int\<close>: the built-in
    \<^verbatim>\<open>int(x)\<close> on a value with no integer conversion, on a NaN, on an infinity;
  \<^item> \<open>ValueError_year y\<close>: \<^verbatim>\<open>ValueError("year must be in %d..%d" % (MINYEAR, MAXYEAR), year)\<close>;
  \<^item> \<open>ValueError_month m\<close>: \<^verbatim>\<open>ValueError("month must be in 1..12", month)\<close>;
  \<^item> \<open>ValueError_day dim d\<close>: \<^verbatim>\<open>ValueError("day must be in 1..%d" % dim, day)\<close>;
  \<^item> \<open>AssertionError_month m\<close>: the failed \<^verbatim>\<open>assert 1 <= month <= 12\<close>;
  \<^item> \<open>KeyError k\<close>: a subscript with a key the dictionary does not have;
  \<^item> \<open>TypeError_unsupported\<close>: \<^verbatim>\<open>TypeError("Unsupported type ...")\<close> of
    \<^verbatim>\<open>from_datetime_date\<close>;
  \<^item> \<open>TypeError_none\<close>: the \<^verbatim>\<open>TypeError\<close> of \<^verbatim>\<open>fromtimestamp(None)\<close>;
  \<^item> \<open>TypeError_compare\<close>: the \<^verbatim>\<open>TypeError\<close> of an ordering operator
    (\<^verbatim>\<open>'<' not supported between instances of ...\<close>) whose two operands both answer
    \<^verbatim>\<open>NotImplemented\<close>.
\<close>

datatype error =
    TypeError_int
  | ValueError_int
  | OverflowError_int
  | ValueError_year int
  | ValueError_month int
  | ValueError_day int int
  | AssertionError_month int
  | KeyError string
  | TypeError_unsupported
  | TypeError_none
  | TypeError_compare

subsection \<open>Decimal strings\<close>

text \<open>\<^verbatim>\<open>str(n)\<close> of an integer: its decimal digits, with a minus sign when negative.\<close>

definition digit_char :: "nat \<Rightarrow> char" where
  "digit_char d = ''0123456789'' ! (d mod 10)"

fun str_nat :: "nat \<Rightarrow> string" where
  "str_nat n = (if n < 10 then [digit_char n] else str_nat (n div 10) @ [digit_char (n mod 10)])"

declare str_nat.simps [simp del]

definition str_int :: "int \<Rightarrow> string" where
  "str_int i = (if i < 0 then CHR ''-'' # str_nat (nat (- i)) else str_nat (nat i))"

text \<open>
  The conversion \<^verbatim>\<open>%0wd\<close> of the \<^verbatim>\<open>%\<close> operator: the decimal digits, padded
  with zeros on the left up to \<open>w\<close> characters, the sign (counted in the width) first.
\<close>

definition fmt_0d :: "nat \<Rightarrow> int \<Rightarrow> string" where
  "fmt_0d w i =
     (let sign = (if i < 0 then ''-'' else ''''); ds = str_nat (nat \<bar>i\<bar>)
      in sign @ replicate (w - length sign - length ds) CHR ''0'' @ ds)"

subsection \<open>The calendar table and the constants\<close>

text \<open>
  \<^verbatim>\<open>_CALENDAR\<close> is the parsed JSON document: a dictionary from the year (as a
  string) to an object whose key \<^verbatim>\<open>"months"\<close> holds a dictionary from the month (as a
  string) to the number of days.
\<close>

type_synonym months_table = "string \<rightharpoonup> int"
type_synonym year_entry = "string \<rightharpoonup> months_table"
type_synonym calendar = "string \<rightharpoonup> year_entry"

text \<open>
  \<open>REFERENCE_DATE_AD\<close> is the ordinal of \<^verbatim>\<open>datetime.date(**REFERENCE_DATE_AD)\<close>.
\<close>

record env =
  MINYEAR :: int
  MAXYEAR :: int
  NEPAL_TIME_UTC_OFFSET :: int
  REFERENCE_DATE_AD :: int
  CALENDAR :: calendar

subsection \<open>helpers.py\<close>

text \<open>\<^verbatim>\<open>_index(a)\<close> is \<^verbatim>\<open>a.__index__()\<close>: an \<^verbatim>\<open>int\<close> returns itself.\<close>

definition index_py :: "int \<Rightarrow> int" where
  "index_py a = a"

text \<open>
  \<^verbatim>\<open>_days_in_month(year, month)\<close>: the assertion, then the three subscripts
  \<^verbatim>\<open>_CALENDAR[str(year)]["months"][str(month)]\<close>.
\<close>

definition days_in_month :: "calendar \<Rightarrow> int \<Rightarrow> int \<Rightarrow> error + int" where
  "days_in_month cal y m =
     (if \<not> (1 \<le> m \<and> m \<le> 12) then Inl (AssertionError_month m)
      else case cal (str_int y) of
        None \<Rightarrow> Inl (KeyError (str_int y))
      | Some entry \<Rightarrow>
          (case entry ''months'' of
             None \<Rightarrow> Inl (KeyError ''months'')
           | Some ms \<Rightarrow>
               (case ms (str_int m) of
                  None \<Rightarrow> Inl (KeyError (str_int m))
                | Some n \<Rightarrow> Inr n)))"

text \<open>\<^verbatim>\<open>_check_date_fields(year, month, day)\<close>.\<close>

definition check_date_fields :: "env \<Rightarrow> int \<Rightarrow> int \<Rightarrow> int \<Rightarrow> error + (int \<times> int \<times> int)" where
  "check_date_fields E y0 m0 d0 =
     (let y = index_py y0; m = index_py m0; d = index_py d0
      in if \<not> (MINYEAR E \<le> y \<and> y \<le> MAXYEAR E) then Inl (ValueError_year y)
         else if \<not> (1 \<le> m \<and> m \<le> 12) then Inl (ValueError_month m)
         else case days_in_month (CALENDAR E) y m of
           Inl e \<Rightarrow> Inl e
         | Inr dim \<Rightarrow>
             if \<not> (1 \<le> d \<and> d \<le> dim) then Inl (ValueError_day dim d)
             else Inr (y, m, d))"

text \<open>
  The comparison \<^verbatim>\<open>x > y\<close> of two 3-tuples of integers: the first position where they
  differ decides.
\<close>

fun tuple_gt :: "int \<times> int \<times> int \<Rightarrow> int \<times> int \<times> int \<Rightarrow> bool" where
  "tuple_gt (a, b, c) (a', b', c') =
     (if a \<noteq> a' then a > a' else if b \<noteq> b' then b > b' else c > c')"

text \<open>\<^verbatim>\<open>_compare(x, y)\<close>.\<close>

definition compare :: "int \<times> int \<times> int \<Rightarrow> int \<times> int \<times> int \<Rightarrow> int" where
  "compare x y = (if x = y then 0 else if tuple_gt x y then 1 else - 1)"

subsection \<open>The class date\<close>

text \<open>
  The built-in \<^verbatim>\<open>int(x)\<close>: an \<^verbatim>\<open>int\<close> is kept, a \<^verbatim>\<open>bool\<close> is 0 or 1, a
  finite float is truncated towards zero.
\<close>

fun int_py :: "pyval \<Rightarrow> error + int" where
  "int_py (PyInt i) = Inr i"
| "int_py (PyBool b) = Inr (if b then 1 else 0)"
| "int_py (PyFloat m e) =
     Inr (if 0 \<le> e then m * 2 ^ nat e
          else if 0 \<le> m then m div 2 ^ nat (- e)
          else - ((- m) div 2 ^ nat (- e)))"
| "int_py PyFloatNaN = Inl ValueError_int"
| "int_py PyFloatInf = Inl OverflowError_int"
| "int_py _ = Inl TypeError_int"

text \<open>
  \<^verbatim>\<open>date.__new__(cls, year, month=None, day=None)\<close>: the three conversions, from
  left to right, then \<^verbatim>\<open>_check_date_fields\<close>, then the four slots.
\<close>

definition date_new :: "env \<Rightarrow> pyval \<Rightarrow> pyval \<Rightarrow> pyval \<Rightarrow> error + date" where
  "date_new E y m d =
     (case int_py y of Inl e \<Rightarrow> Inl e | Inr yi \<Rightarrow>
      case int_py m of Inl e \<Rightarrow> Inl e | Inr mi \<Rightarrow>
      case int_py d of Inl e \<Rightarrow> Inl e | Inr di \<Rightarrow>
      case check_date_fields E yi mi di of
        Inl e \<Rightarrow> Inl e
      | Inr (y', m', d') \<Rightarrow> Inr \<lparr>year = y', month = m', day = d', hashcode = - 1\<rparr>)"

text \<open>
  \<^verbatim>\<open>date.__add__\<close> (also \<^verbatim>\<open>__radd__\<close>) and \<^verbatim>\<open>date.__sub__\<close>: the body is
  \<^verbatim>\<open>pass\<close>, so the call returns \<^verbatim>\<open>None\<close>.
\<close>

definition date_add :: "date \<Rightarrow> pyval \<Rightarrow> pyval" where
  "date_add self other = PyNone"

definition date_sub :: "date \<Rightarrow> pyval \<Rightarrow> pyval" where
  "date_sub self other = PyNone"

text \<open>
  \<^verbatim>\<open>date.from_datetime_date(cls, from_date)\<close>. The left operand
  \<^verbatim>\<open>cls(MINYEAR, 1, 1)\<close> is evaluated first; the right operand is the difference of two
  \<^verbatim>\<open>datetime.date\<close> values, a \<^verbatim>\<open>timedelta\<close> of the difference of their ordinals.
\<close>

definition from_datetime_date :: "env \<Rightarrow> pyval \<Rightarrow> error + pyval" where
  "from_datetime_date E from_date =
     (case from_date of
        PyADDate g \<Rightarrow>
          (case date_new E (PyInt (MINYEAR E)) (PyInt 1) (PyInt 1) of
             Inl e \<Rightarrow> Inl e
           | Inr epoch \<Rightarrow> Inr (date_add epoch (PyTimedelta (g - REFERENCE_DATE_AD E))))
      | _ \<Rightarrow> Inl TypeError_unsupported)"

text \<open>
  \<^verbatim>\<open>date.fromtimestamp(cls, t)\<close>. The platform's \<^verbatim>\<open>time.gmtime\<close> and the
  construction of the \<^verbatim>\<open>datetime.date\<close> from its result are the parameter
  \<open>gmtime_date\<close>: given \<open>t\<close> and the offset added to it, the ordinal of that date or the
  exception raised on the way.
\<close>

definition fromtimestamp :: "env \<Rightarrow> (pyval \<Rightarrow> int \<Rightarrow> error + int) \<Rightarrow> pyval \<Rightarrow> error + pyval" where
  "fromtimestamp E gmtime_date t =
     (if t = PyNone then Inl TypeError_none
      else case gmtime_date t (NEPAL_TIME_UTC_OFFSET E) of
        Inl e \<Rightarrow> Inl e
      | Inr g \<Rightarrow> from_datetime_date E (PyADDate g))"

text \<open>\<^verbatim>\<open>date.today(cls)\<close>, with the reading of \<^verbatim>\<open>time.time()\<close> as \<open>now\<close>.\<close>

definition today :: "env \<Rightarrow> (pyval \<Rightarrow> int \<Rightarrow> error + int) \<Rightarrow> pyval \<Rightarrow> error + pyval" where
  "today E gmtime_date now = fromtimestamp E gmtime_date now"

text \<open>\<^verbatim>\<open>date.isoformat\<close>, which is also \<^verbatim>\<open>__str__\<close>.\<close>

definition isoformat :: "date \<Rightarrow> string" where
  "isoformat self = fmt_0d 4 (year self) @ ''-'' @ fmt_0d 2 (month self) @ ''-'' @ fmt_0d 2 (day self)"

text \<open>
  \<^verbatim>\<open>date.replace(self, year=None, month=None, day=None)\<close>; \<^verbatim>\<open>type(self)\<close> is
  \<^verbatim>\<open>date\<close>.
\<close>

definition replace :: "env \<Rightarrow> date \<Rightarrow> pyval \<Rightarrow> pyval \<Rightarrow> pyval \<Rightarrow> error + date" where
  "replace E self y m d =
     date_new E (if y = PyNone then PyInt (year self) else y)
                (if m = PyNone then PyInt (month self) else m)
                (if d = PyNone then PyInt (day self) else d)"

text \<open>\<^verbatim>\<open>date._cmp\<close>, on an \<open>other\<close> that is a \<^verbatim>\<open>date\<close>, as it asserts.\<close>

definition date_cmp :: "date \<Rightarrow> date \<Rightarrow> int" where
  "date_cmp self other =
     compare (year self, month self, day self) (year other, month other, day other)"

text \<open>The five comparison methods.\<close>

definition date_eq :: "date \<Rightarrow> pyval \<Rightarrow> pyval" where
  "date_eq self other =
     (case other of PyDate other' \<Rightarrow> PyBool (date_cmp self other' = 0) | _ \<Rightarrow> PyNotImplemented)"

definition date_le :: "date \<Rightarrow> pyval \<Rightarrow> pyval" where
  "date_le self other =
     (case other of PyDate other' \<Rightarrow> PyBool (date_cmp self other' \<le> 0) | _ \<Rightarrow> PyNotImplemented)"

definition date_lt :: "date \<Rightarrow> pyval \<Rightarrow> pyval" where
  "date_lt self other =
     (case other of PyDate other' \<Rightarrow> PyBool (date_cmp self other' < 0) | _ \<Rightarrow> PyNotImplemented)"

definition date_ge :: "date \<Rightarrow> pyval \<Rightarrow> pyval" where
  "date_ge self other =
     (case other of PyDate other' \<Rightarrow> PyBool (date_cmp self other' \<ge> 0) | _ \<Rightarrow> PyNotImplemented)"

definition date_gt :: "date \<Rightarrow> pyval \<Rightarrow> pyval" where
  "date_gt self other =
     (case other of PyDate other' \<Rightarrow> PyBool (date_cmp self other' > 0) | _ \<Rightarrow> PyNotImplemented)"


subsection \<open>The comparison operators\<close>

text \<open>
  An operator such as \<^verbatim>\<open>self < other\<close> first calls the method of its left operand
  (\<^verbatim>\<open>self.__lt__(other)\<close>). When the answer is \<^verbatim>\<open>NotImplemented\<close> it calls
  the swapped method of the right operand (\<^verbatim>\<open>other.__gt__(self)\<close>). When that
  answer is \<^verbatim>\<open>NotImplemented\<close> too, \<^verbatim>\<open>==\<close> is the identity test, which is
  false for two different objects, and an ordering operator raises \<^verbatim>\<open>TypeError\<close>.
\<close>

datatype cmp_op = Op_eq | Op_le | Op_lt | Op_ge | Op_gt

fun date_method :: "cmp_op \<Rightarrow> date \<Rightarrow> pyval \<Rightarrow> pyval" where
  "date_method Op_eq = date_eq"
| "date_method Op_le = date_le"
| "date_method Op_lt = date_lt"
| "date_method Op_ge = date_ge"
| "date_method Op_gt = date_gt"

fun swapped :: "cmp_op \<Rightarrow> cmp_op" where
  "swapped Op_eq = Op_eq"
| "swapped Op_le = Op_ge"
| "swapped Op_lt = Op_gt"
| "swapped Op_ge = Op_le"
| "swapped Op_gt = Op_lt"

text \<open>
  The comparison method of the right operand, applied to a date. The methods of
  \<^verbatim>\<open>int\<close>, \<^verbatim>\<open>bool\<close>, \<^verbatim>\<open>float\<close>, \<^verbatim>\<open>NoneType\<close>,
  \<^verbatim>\<open>datetime.date\<close> and \<^verbatim>\<open>timedelta\<close> answer \<^verbatim>\<open>NotImplemented\<close> to an
  operand of a type they do not know.
\<close>

fun other_method :: "pyval \<Rightarrow> cmp_op \<Rightarrow> date \<Rightarrow> pyval" where
  "other_method (PyDate other) op self = date_method op other (PyDate self)"
| "other_method _ op self = PyNotImplemented"

definition operator :: "cmp_op \<Rightarrow> date \<Rightarrow> pyval \<Rightarrow> error + pyval" where
  "operator op self other =
     (case date_method op self other of
        PyNotImplemented \<Rightarrow>
          (case other_method other (swapped op) self of
             PyNotImplemented \<Rightarrow>
               if op = Op_eq then Inr (PyBool False) else Inl TypeError_compare
           | v \<Rightarrow> Inr v)
      | v \<Rightarrow> Inr v)"

subsection \<open>Date objects\<close>










subsection \<open>The invariant of a date and the well-formed table\<close>

text \<open>
  The invariant of a date under an environment: the year within
  \<open>MINYEAR .. MAXYEAR\<close>, the month within \<open>1 .. 12\<close>, the day within 1 and the length
  that \<^verbatim>\<open>_days_in_month\<close> returns for that year and month.
\<close>

definition valid_date :: "env \<Rightarrow> date \<Rightarrow> bool" where
  "valid_date E d =
     (MINYEAR E \<le> year d \<and> year d \<le> MAXYEAR E \<and> 1 \<le> month d \<and> month d \<le> 12 \<and>
      (case days_in_month (CALENDAR E) (year d) (month d) of
         Inl e \<Rightarrow> False
       | Inr dim \<Rightarrow> 1 \<le> day d \<and> day d \<le> dim))"

text \<open>
  The table is well formed for the constants when it gives a length of at least one day to
  each of the twelve months of every year from \<open>MINYEAR\<close> to \<open>MAXYEAR\<close>.
\<close>

definition table_ok :: "env \<Rightarrow> bool" where
  "table_ok E =
     list_all (\<lambda>y. list_all (\<lambda>m.
         case days_in_month (CALENDAR E) y m of Inl e \<Rightarrow> False | Inr n \<Rightarrow> 1 \<le> n) [1..12])
       [MINYEAR E..MAXYEAR E]"

subsection \<open>The day ordinal of the specification\<close>


text \<open>The months before a date: the twelve months of each earlier year, from \<open>lo\<close> on,
  then the earlier months of its own year.\<close>

definition months_before :: "int \<Rightarrow> int \<Rightarrow> int \<Rightarrow> (int \<times> int) list" where
  "months_before lo y m =
     concat (map (\<lambda>y'. map (\<lambda>m'. (y', m')) [1..12]) [lo..y - 1]) @ map (\<lambda>m'. (y, m')) [1..m - 1]"




subsection \<open>A sample environment\<close>

text \<open>
  A small environment for the concrete instances below: a table of three years, the
  constants set to its bounds, the offset of Nepal time in seconds, and the Gregorian
  ordinal of 2020-04-13.
\<close>

definition months_of :: "int list \<Rightarrow> months_table" where
  "months_of lens =
     map_of (zip [''1'', ''2'', ''3'', ''4'', ''5'', ''6'', ''7'', ''8'', ''9'', ''10'', ''11'', ''12''] lens)"

definition entry_of :: "int list \<Rightarrow> year_entry" where
  "entry_of lens = map_of [(''months'', months_of lens)]"

definition sample_calendar :: calendar where
  "sample_calendar = map_of
     [(''2077'', entry_of [31, 32, 31, 32, 31, 30, 30, 30, 29, 30, 29, 31]),
      (''2078'', entry_of [31, 31, 31, 32, 31, 31, 30, 29, 30, 29, 30, 30]),
      (''2079'', entry_of [31, 31, 32, 31, 31, 31, 30, 29, 30, 29, 30, 30])]"

definition sample_env :: env where
  "sample_env = \<lparr>MINYEAR = 2077, MAXYEAR = 2079, NEPAL_TIME_UTC_OFFSET = 20700,
     REFERENCE_DATE_AD = 737528, CALENDAR = sample_calendar\<rparr>"

section \<open>Basic facts\<close>

lemmas sample_eval = days_in_month_def sample_calendar_def entry_of_def months_of_def
  str_int_def str_nat.simps digit_char_def

lemma sample_table_ok: "table_ok sample_env"
  by (simp add: table_ok_def sample_env_def upto_rec1 sample_eval)

lemma check_date_fields_Inr:
  assumes "check_date_fields E y m d = Inr r"
  shows "r = (y, m, d) \<and> MINYEAR E \<le> y \<and> y \<le> MAXYEAR E \<and> 1 \<le> m \<and> m \<le> 12
       \<and> (\<exists>dim. days_in_month (CALENDAR E) y m = Inr dim \<and> 1 \<le> d \<and> d \<le> dim)"
  using assms
  by (auto simp: check_date_fields_def index_py_def Let_def split: if_splits sum.splits)

lemma date_new_Inr:
  assumes "date_new E y m d = Inr dt"
  shows "valid_date E dt \<and> hashcode dt = - 1
       \<and> int_py y = Inr (year dt) \<and> int_py m = Inr (month dt) \<and> int_py d = Inr (day dt)"
proof -
  from assms obtain yi mi di r where
    c: "int_py y = Inr yi" "int_py m = Inr mi" "int_py d = Inr di"
    and chk: "check_date_fields E yi mi di = Inr r"
    and dt: "dt = \<lparr>year = fst r, month = fst (snd r), day = snd (snd r), hashcode = - 1\<rparr>"
    by (auto simp: date_new_def split: sum.splits prod.splits)
  from check_date_fields_Inr [OF chk] show ?thesis
    using c dt by (auto simp: valid_date_def)
qed

lemma date_new_of_valid:
  assumes "valid_date E dt"
  shows "date_new E (PyInt (year dt)) (PyInt (month dt)) (PyInt (day dt))
       = Inr \<lparr>year = year dt, month = month dt, day = day dt, hashcode = - 1\<rparr>"
  using assms
  by (auto simp: valid_date_def date_new_def check_date_fields_def index_py_def Let_def
      split: sum.splits)

lemma table_ok_lookup:
  assumes "table_ok E" "MINYEAR E \<le> y" "y \<le> MAXYEAR E" "1 \<le> m" "m \<le> 12"
  shows "\<exists>n. days_in_month (CALENDAR E) y m = Inr n \<and> 1 \<le> n"
proof -
  from assms have "case days_in_month (CALENDAR E) y m of Inl e \<Rightarrow> False | Inr n \<Rightarrow> 1 \<le> n"
    by (simp add: table_ok_def list_all_iff)
  then show ?thesis by (cases "days_in_month (CALENDAR E) y m") auto
qed

lemma sample_dim_2078_9: "days_in_month (CALENDAR sample_env) 2078 9 = Inr 30"
  by (simp add: sample_env_def sample_eval)

lemma sample_bounds: "MINYEAR sample_env = 2077" "MAXYEAR sample_env = 2079"
  by (simp_all add: sample_env_def)

section \<open>The lookup of a month length\<close>

text \<open>
  C4, as the code has it. \<^verbatim>\<open>_days_in_month(year, month)\<close> fails with an
  \<^verbatim>\<open>AssertionError\<close> when the month is outside \<open>1 .. 12\<close>; otherwise it fails
  with a \<^verbatim>\<open>KeyError\<close> when the table has no entry for the year (it does not read
  \<^verbatim>\<open>MINYEAR\<close> or \<^verbatim>\<open>MAXYEAR\<close>); otherwise it returns the number of days
  the table stores for that year and month.
\<close>

theorem days_in_month_cases:
  "(\<not> (1 \<le> m \<and> m \<le> 12) \<longrightarrow> days_in_month cal y m = Inl (AssertionError_month m))
   \<and> (1 \<le> m \<and> m \<le> 12 \<and> cal (str_int y) = None
        \<longrightarrow> days_in_month cal y m = Inl (KeyError (str_int y)))
   \<and> (1 \<le> m \<and> m \<le> 12 \<and> cal (str_int y) = Some entry \<and> entry ''months'' = Some ms
        \<and> ms (str_int m) = Some n
        \<longrightarrow> days_in_month cal y m = Inr n)"
  by (simp add: days_in_month_def)

theorem days_in_month_cases_witness:
  "days_in_month sample_calendar 2078 13 = Inl (AssertionError_month 13)
   \<and> days_in_month sample_calendar 2080 9 = Inl (KeyError ''2080'')
   \<and> days_in_month sample_calendar 2078 9 = Inr 30"
proof -
  have k: "str_int 2080 = ''2080''" "str_int 2078 = ''2078''" "str_int 9 = ''9''"
    by (simp_all add: str_int_def str_nat.simps digit_char_def)
  have a: "\<not> (1 \<le> (13::int) \<and> (13::int) \<le> 12)" by simp
  have b: "1 \<le> (9::int) \<and> (9::int) \<le> 12 \<and> sample_calendar (str_int 2080) = None"
    by (simp add: k sample_calendar_def)
  have c: "1 \<le> (9::int) \<and> (9::int) \<le> 12
      \<and> sample_calendar (str_int 2078) = Some (entry_of [31, 31, 31, 32, 31, 31, 30, 29, 30, 29, 30, 30])
      \<and> entry_of [31, 31, 31, 32, 31, 31, 30, 29, 30, 29, 30, 30] ''months''
          = Some (months_of [31, 31, 31, 32, 31, 31, 30, 29, 30, 29, 30, 30])
      \<and> months_of [31, 31, 31, 32, 31, 31, 30, 29, 30, 29, 30, 30] (str_int 9) = Some 30"
    by (simp add: k sample_calendar_def entry_of_def months_of_def)
  from days_in_month_cases [of 13 sample_calendar 2078] a
  have 1: "days_in_month sample_calendar 2078 13 = Inl (AssertionError_month 13)" by blast
  from days_in_month_cases [of 9 sample_calendar 2080] b
  have 2: "days_in_month sample_calendar 2080 9 = Inl (KeyError (str_int 2080))" by blast
  from days_in_month_cases [of 9 sample_calendar 2078 _ _ 30] c
  have 3: "days_in_month sample_calendar 2078 9 = Inr 30" by blast
  from 1 2 3 show ?thesis by (simp add: k)
qed

text \<open>
  The property as the specification states it fails: at month 13 the error is the
  \<^verbatim>\<open>AssertionError\<close>, and at a year the table does not have it is a
  \<^verbatim>\<open>KeyError\<close>; neither is the \<^verbatim>\<open>ValueError\<close> that
  \<^verbatim>\<open>_check_date_fields\<close> raises for a year or a month out of range.
\<close>

theorem days_in_month_counterexample:
  "days_in_month (CALENDAR sample_env) 2078 13 = Inl (AssertionError_month 13)
   \<and> days_in_month (CALENDAR sample_env) 2078 13 \<noteq> Inl (ValueError_month 13)
   \<and> days_in_month (CALENDAR sample_env) 2080 9 = Inl (KeyError ''2080'')
   \<and> days_in_month (CALENDAR sample_env) 2080 9 \<noteq> Inl (ValueError_year 2080)"
  by (simp add: sample_env_def sample_eval)

section \<open>Validation at construction\<close>

text \<open>
  C5. The constructor checks the year, then the month, then the day, and stops at the
  first failure: a year outside \<open>MINYEAR .. MAXYEAR\<close> gives the year's
  \<^verbatim>\<open>ValueError\<close> whatever the month and the day are, a month outside \<open>1 .. 12\<close>
  gives the month's \<^verbatim>\<open>ValueError\<close> whatever the day is, and, over a well-formed
  table, a day outside 1 and the month's length gives the day's \<^verbatim>\<open>ValueError\<close>.
  For every year and month in range, the last day of the month is accepted and the day
  after it is rejected with the day's \<^verbatim>\<open>ValueError\<close>.
\<close>

theorem construction_validation_order:
  "(\<not> (MINYEAR E \<le> y \<and> y \<le> MAXYEAR E)
      \<longrightarrow> date_new E (PyInt y) (PyInt m) (PyInt d) = Inl (ValueError_year y))
   \<and> (MINYEAR E \<le> y \<and> y \<le> MAXYEAR E \<and> \<not> (1 \<le> m \<and> m \<le> 12)
      \<longrightarrow> date_new E (PyInt y) (PyInt m) (PyInt d) = Inl (ValueError_month m))
   \<and> (table_ok E \<and> MINYEAR E \<le> y \<and> y \<le> MAXYEAR E \<and> 1 \<le> m \<and> m \<le> 12
      \<longrightarrow> (\<exists>dim. days_in_month (CALENDAR E) y m = Inr dim
            \<and> date_new E (PyInt y) (PyInt m) (PyInt d)
                = (if 1 \<le> d \<and> d \<le> dim
                   then Inr \<lparr>year = y, month = m, day = d, hashcode = - 1\<rparr>
                   else Inl (ValueError_day dim d))
            \<and> date_new E (PyInt y) (PyInt m) (PyInt dim)
                = Inr \<lparr>year = y, month = m, day = dim, hashcode = - 1\<rparr>
            \<and> date_new E (PyInt y) (PyInt m) (PyInt (dim + 1))
                = Inl (ValueError_day dim (dim + 1))))"
proof (intro conjI impI)
  assume "\<not> (MINYEAR E \<le> y \<and> y \<le> MAXYEAR E)"
  then show "date_new E (PyInt y) (PyInt m) (PyInt d) = Inl (ValueError_year y)"
    by (simp add: date_new_def check_date_fields_def index_py_def)
next
  assume "MINYEAR E \<le> y \<and> y \<le> MAXYEAR E \<and> \<not> (1 \<le> m \<and> m \<le> 12)"
  then show "date_new E (PyInt y) (PyInt m) (PyInt d) = Inl (ValueError_month m)"
    by (simp add: date_new_def check_date_fields_def index_py_def)
next
  assume h: "table_ok E \<and> MINYEAR E \<le> y \<and> y \<le> MAXYEAR E \<and> 1 \<le> m \<and> m \<le> 12"
  then obtain dim where dim: "days_in_month (CALENDAR E) y m = Inr dim" "1 \<le> dim"
    using table_ok_lookup [of E y m] by blast
  have new: "date_new E (PyInt y) (PyInt m) (PyInt d') =
      (if 1 \<le> d' \<and> d' \<le> dim then Inr \<lparr>year = y, month = m, day = d', hashcode = - 1\<rparr>
       else Inl (ValueError_day dim d'))" for d'
    using h dim by (simp add: date_new_def check_date_fields_def index_py_def)
  show "\<exists>dim. days_in_month (CALENDAR E) y m = Inr dim
      \<and> date_new E (PyInt y) (PyInt m) (PyInt d)
          = (if 1 \<le> d \<and> d \<le> dim
             then Inr \<lparr>year = y, month = m, day = d, hashcode = - 1\<rparr>
             else Inl (ValueError_day dim d))
      \<and> date_new E (PyInt y) (PyInt m) (PyInt dim)
          = Inr \<lparr>year = y, month = m, day = dim, hashcode = - 1\<rparr>
      \<and> date_new E (PyInt y) (PyInt m) (PyInt (dim + 1))
          = Inl (ValueError_day dim (dim + 1))"
    using dim new [of d] new [of dim] new [of "dim + 1"] by (intro exI [of _ dim]) simp
qed

theorem construction_validation_order_witness:
  "date_new sample_env (PyInt 2080) (PyInt 13) (PyInt 40) = Inl (ValueError_year 2080)
   \<and> date_new sample_env (PyInt 2078) (PyInt 13) (PyInt 40) = Inl (ValueError_month 13)
   \<and> date_new sample_env (PyInt 2078) (PyInt 9) (PyInt 0) = Inl (ValueError_day 30 0)
   \<and> date_new sample_env (PyInt 2078) (PyInt 9) (PyInt 30)
       = Inr \<lparr>year = 2078, month = 9, day = 30, hashcode = - 1\<rparr>
   \<and> date_new sample_env (PyInt 2078) (PyInt 9) (PyInt 31) = Inl (ValueError_day 30 31)"
proof -
  have a: "\<not> (MINYEAR sample_env \<le> 2080 \<and> 2080 \<le> MAXYEAR sample_env)"
    by (simp add: sample_bounds)
  have b: "MINYEAR sample_env \<le> 2078 \<and> 2078 \<le> MAXYEAR sample_env
      \<and> \<not> (1 \<le> (13::int) \<and> (13::int) \<le> 12)"
    by (simp add: sample_bounds)
  have c: "table_ok sample_env \<and> MINYEAR sample_env \<le> 2078 \<and> 2078 \<le> MAXYEAR sample_env
      \<and> 1 \<le> (9::int) \<and> (9::int) \<le> 12"
    by (simp add: sample_bounds sample_table_ok)
  from construction_validation_order [of sample_env 2080 13 40] a
  have 1: "date_new sample_env (PyInt 2080) (PyInt 13) (PyInt 40) = Inl (ValueError_year 2080)"
    by blast
  from construction_validation_order [of sample_env 2078 13 40] b
  have 2: "date_new sample_env (PyInt 2078) (PyInt 13) (PyInt 40) = Inl (ValueError_month 13)"
    by blast
  from construction_validation_order [of sample_env 2078 9 0] c
  have 3: "date_new sample_env (PyInt 2078) (PyInt 9) (PyInt 0) = Inl (ValueError_day 30 0)
      \<and> date_new sample_env (PyInt 2078) (PyInt 9) (PyInt 30)
          = Inr \<lparr>year = 2078, month = 9, day = 30, hashcode = - 1\<rparr>
      \<and> date_new sample_env (PyInt 2078) (PyInt 9) (PyInt 31) = Inl (ValueError_day 30 31)"
    by (auto simp: sample_dim_2078_9)
  from 1 2 3 show ?thesis by simp
qed

section \<open>More basic facts\<close>

lemma from_datetime_date_result:
  "from_datetime_date E g = Inr v \<Longrightarrow> v = PyNone"
  by (auto simp: from_datetime_date_def date_add_def split: pyval.splits sum.splits)

lemma fromtimestamp_result:
  "fromtimestamp E gm t = Inr v \<Longrightarrow> v = PyNone"
  by (auto simp: fromtimestamp_def split: if_splits sum.splits dest: from_datetime_date_result)

lemma replace_Inr:
  assumes "replace E self y m d = Inr r"
  shows "valid_date E r \<and> hashcode r = - 1
       \<and> (if y = PyNone then year r = year self else int_py y = Inr (year r))
       \<and> (if m = PyNone then month r = month self else int_py m = Inr (month r))
       \<and> (if d = PyNone then day r = day self else int_py d = Inr (day r))"
  using date_new_Inr [OF assms [unfolded replace_def]]
  by (auto split: if_splits)

lemma sample_date_new: "date_new sample_env (PyInt 2078) (PyInt 9) (PyInt 1)
     = Inr \<lparr>year = 2078, month = 9, day = 1, hashcode = - 1\<rparr>"
  by (simp add: date_new_def check_date_fields_def index_py_def sample_bounds sample_dim_2078_9)

lemma sample_dim_2078_2: "days_in_month (CALENDAR sample_env) 2078 2 = Inr 31"
  by (simp add: sample_env_def sample_eval)

lemma sample_date_new_2: "date_new sample_env (PyInt 2078) (PyInt 2) (PyInt 8)
     = Inr \<lparr>year = 2078, month = 2, day = 8, hashcode = - 1\<rparr>"
  by (simp add: date_new_def check_date_fields_def index_py_def sample_bounds sample_dim_2078_2)

section \<open>replace\<close>

text \<open>
  C10. For every date that the constructor returned, \<^verbatim>\<open>replace\<close> with no field
  given returns a date equal to it (the same fields, and \<^verbatim>\<open>__eq__\<close> answers
  \<^verbatim>\<open>True\<close>). With fields given, \<^verbatim>\<open>replace\<close> is the constructor applied to
  the given fields and, for the others, the fields of the date: a date it returns
  satisfies the invariant, keeps the fields that were not given and has the given ones.
\<close>

theorem replace_no_overrides:
  assumes "date_new E y m d = Inr self"
  shows "replace E self PyNone PyNone PyNone = Inr self
       \<and> date_eq self (PyDate self) = PyBool True
       \<and> (replace E self y' m' d' = Inr r \<longrightarrow>
            valid_date E r
            \<and> (if y' = PyNone then year r = year self else int_py y' = Inr (year r))
            \<and> (if m' = PyNone then month r = month self else int_py m' = Inr (month r))
            \<and> (if d' = PyNone then day r = day self else int_py d' = Inr (day r)))
       \<and> replace E self y' m' d'
           = date_new E (if y' = PyNone then PyInt (year self) else y')
                        (if m' = PyNone then PyInt (month self) else m')
                        (if d' = PyNone then PyInt (day self) else d')"
proof -
  from date_new_Inr [OF assms] have v: "valid_date E self" and h: "hashcode self = - 1"
    by simp_all
  have "replace E self PyNone PyNone PyNone
      = Inr \<lparr>year = year self, month = month self, day = day self, hashcode = - 1\<rparr>"
    using date_new_of_valid [OF v] by (simp add: replace_def)
  also have "\<lparr>year = year self, month = month self, day = day self, hashcode = - 1\<rparr> = self"
    using h by simp
  finally have 1: "replace E self PyNone PyNone PyNone = Inr self" .
  have 2: "date_eq self (PyDate self) = PyBool True"
    by (simp add: date_eq_def date_cmp_def compare_def)
  have 3: "replace E self y' m' d' = Inr r \<longrightarrow>
            valid_date E r
            \<and> (if y' = PyNone then year r = year self else int_py y' = Inr (year r))
            \<and> (if m' = PyNone then month r = month self else int_py m' = Inr (month r))
            \<and> (if d' = PyNone then day r = day self else int_py d' = Inr (day r))"
    using replace_Inr [of E self y' m' d' r] by blast
  have 4: "replace E self y' m' d'
           = date_new E (if y' = PyNone then PyInt (year self) else y')
                        (if m' = PyNone then PyInt (month self) else m')
                        (if d' = PyNone then PyInt (day self) else d')"
    by (simp only: replace_def)
  from 1 2 3 4 show ?thesis by (intro conjI)
qed

theorem replace_no_overrides_witness:
  "date_new sample_env (PyInt 2078) (PyInt 2) (PyInt 8)
     = Inr \<lparr>year = 2078, month = 2, day = 8, hashcode = - 1\<rparr>
   \<and> replace sample_env \<lparr>year = 2078, month = 2, day = 8, hashcode = - 1\<rparr> PyNone PyNone PyNone
     = Inr \<lparr>year = 2078, month = 2, day = 8, hashcode = - 1\<rparr>
   \<and> date_eq \<lparr>year = 2078, month = 2, day = 8, hashcode = - 1\<rparr>
        (PyDate \<lparr>year = 2078, month = 2, day = 8, hashcode = - 1\<rparr>) = PyBool True
   \<and> replace sample_env \<lparr>year = 2078, month = 2, day = 8, hashcode = - 1\<rparr> PyNone (PyInt 9) (PyInt 1)
     = Inr \<lparr>year = 2078, month = 9, day = 1, hashcode = - 1\<rparr>
   \<and> valid_date sample_env \<lparr>year = 2078, month = 9, day = 1, hashcode = - 1\<rparr>
   \<and> replace sample_env \<lparr>year = 2078, month = 2, day = 8, hashcode = - 1\<rparr> PyNone (PyInt 9) (PyInt 31)
     = Inl (ValueError_day 30 31)"
proof -
  have a: "date_new sample_env (PyInt 2078) (PyInt 2) (PyInt 8)
      = Inr \<lparr>year = 2078, month = 2, day = 8, hashcode = - 1\<rparr>"
    by (rule sample_date_new_2)
  have b: "replace sample_env \<lparr>year = 2078, month = 2, day = 8, hashcode = - 1\<rparr> PyNone (PyInt 9) (PyInt 1)
      = Inr \<lparr>year = 2078, month = 9, day = 1, hashcode = - 1\<rparr>"
    by (simp add: replace_def sample_date_new)
  have c: "replace sample_env \<lparr>year = 2078, month = 2, day = 8, hashcode = - 1\<rparr> PyNone (PyInt 9) (PyInt 31)
      = Inl (ValueError_day 30 31)"
    by (simp add: replace_def date_new_def check_date_fields_def index_py_def sample_bounds
        sample_dim_2078_9)
  note t = replace_no_overrides [OF a, of PyNone "PyInt 9" "PyInt 1"
      "\<lparr>year = 2078, month = 9, day = 1, hashcode = - 1\<rparr>"]
  from t have 1: "replace sample_env \<lparr>year = 2078, month = 2, day = 8, hashcode = - 1\<rparr> PyNone PyNone PyNone
      = Inr \<lparr>year = 2078, month = 2, day = 8, hashcode = - 1\<rparr>"
    by (rule conjunct1)
  from t have 2: "date_eq \<lparr>year = 2078, month = 2, day = 8, hashcode = - 1\<rparr>
        (PyDate \<lparr>year = 2078, month = 2, day = 8, hashcode = - 1\<rparr>) = PyBool True"
    by (rule conjunct1 [OF conjunct2])
  from t b have 3: "valid_date sample_env \<lparr>year = 2078, month = 9, day = 1, hashcode = - 1\<rparr>"
    by simp
  from a 1 2 b 3 c show ?thesis by (intro conjI)
qed

section \<open>isoformat\<close>

text \<open>The decimal digits of a number below 10000, and the padded conversions.\<close>

lemma digit_char_mod: "digit_char (n mod 10) = digit_char n"
  by (simp add: digit_char_def)

lemma digit_char_0: "digit_char 0 = CHR ''0''"
  by (simp add: digit_char_def)

lemma str_nat_1: "n < 10 \<Longrightarrow> str_nat n = [digit_char n]"
  by (simp add: str_nat.simps [of n])

lemma str_nat_2: "10 \<le> n \<Longrightarrow> n < 100 \<Longrightarrow> str_nat n = [digit_char (n div 10), digit_char n]"
  by (simp add: str_nat.simps [of n] str_nat_1 digit_char_mod)

lemma str_nat_3:
  "100 \<le> n \<Longrightarrow> n < 1000 \<Longrightarrow>
   str_nat n = [digit_char (n div 100), digit_char (n div 10), digit_char n]"
  by (simp add: str_nat.simps [of n] str_nat_2 digit_char_mod div_mult2_eq [symmetric])

lemma str_nat_4:
  "1000 \<le> n \<Longrightarrow> n < 10000 \<Longrightarrow>
   str_nat n = [digit_char (n div 1000), digit_char (n div 100), digit_char (n div 10), digit_char n]"
  by (simp add: str_nat.simps [of n] str_nat_3 digit_char_mod div_mult2_eq [symmetric])

lemma replicate_small:
  "replicate 3 x = [x, x, x]" "replicate 2 x = [x, x]" "replicate (Suc 0) x = [x]"
  by (simp_all add: numeral_3_eq_3 numeral_2_eq_2)

lemma fmt_0d_2:
  assumes "0 \<le> i" "i \<le> 99"
  shows "fmt_0d 2 i = [digit_char (nat i div 10), digit_char (nat i)]"
proof (cases "nat i < 10")
  case True
  then show ?thesis using assms
    by (simp add: fmt_0d_def str_nat_1 digit_char_0 replicate_small)
next
  case False
  then show ?thesis using assms
    by (simp add: fmt_0d_def str_nat_2)
qed

lemma fmt_0d_4:
  assumes "0 \<le> i" "i \<le> 9999"
  shows "fmt_0d 4 i = [digit_char (nat i div 1000), digit_char (nat i div 100),
                       digit_char (nat i div 10), digit_char (nat i)]"
proof -
  consider "nat i < 10" | "10 \<le> nat i" "nat i < 100" | "100 \<le> nat i" "nat i < 1000"
    | "1000 \<le> nat i" "nat i < 10000"
    using assms by linarith
  then show ?thesis
  proof cases
    case 1
    then show ?thesis using assms
      by (simp add: fmt_0d_def str_nat_1 digit_char_0 replicate_small)
  next
    case 2
    then show ?thesis using assms
      by (simp add: fmt_0d_def str_nat_2 digit_char_0 replicate_small)
  next
    case 3
    then show ?thesis using assms
      by (simp add: fmt_0d_def str_nat_3 digit_char_0 replicate_small)
  next
    case 4
    then show ?thesis using assms
      by (simp add: fmt_0d_def str_nat_4)
  qed
qed

text \<open>
  C8. For every date the constructor returned, over constants with
  \<open>0 \<le> MINYEAR\<close> and \<open>MAXYEAR \<le> 9999\<close> and a day of at most two digits,
  \<^verbatim>\<open>isoformat\<close> is the ten characters \<^verbatim>\<open>YYYY-MM-DD\<close>: the four decimal digits
  of the year, a hyphen, the two digits of the month, a hyphen, the two digits of the day,
  each number padded with zeros. In particular the date 2078-9-1 gives
  \<^verbatim>\<open>"2078-09-01"\<close>.
\<close>

theorem isoformat_fixed_width:
  assumes "date_new E y m d = Inr dt" "0 \<le> MINYEAR E" "MAXYEAR E \<le> 9999" "day dt \<le> 99"
  shows "isoformat dt =
           [digit_char (nat (year dt) div 1000), digit_char (nat (year dt) div 100),
            digit_char (nat (year dt) div 10), digit_char (nat (year dt)),
            CHR ''-'',
            digit_char (nat (month dt) div 10), digit_char (nat (month dt)),
            CHR ''-'',
            digit_char (nat (day dt) div 10), digit_char (nat (day dt))]
       \<and> length (isoformat dt) = 10
       \<and> isoformat \<lparr>year = 2078, month = 9, day = 1, hashcode = - 1\<rparr> = ''2078-09-01''"
proof -
  from date_new_Inr [OF assms(1)] have v: "valid_date E dt" by simp
  then have yr: "0 \<le> year dt" "year dt \<le> 9999" and mo: "0 \<le> month dt" "month dt \<le> 99"
    and dy: "0 \<le> day dt"
    using assms(2,3) by (auto simp: valid_date_def split: sum.splits)
  have 1: "isoformat dt =
           [digit_char (nat (year dt) div 1000), digit_char (nat (year dt) div 100),
            digit_char (nat (year dt) div 10), digit_char (nat (year dt)),
            CHR ''-'',
            digit_char (nat (month dt) div 10), digit_char (nat (month dt)),
            CHR ''-'',
            digit_char (nat (day dt) div 10), digit_char (nat (day dt))]"
    by (simp add: isoformat_def fmt_0d_4 [OF yr] fmt_0d_2 [OF mo] fmt_0d_2 [OF dy assms(4)])
  have 2: "length (isoformat dt) = 10"
    by (simp add: 1)
  have 3: "isoformat \<lparr>year = 2078, month = 9, day = 1, hashcode = - 1\<rparr> = ''2078-09-01''"
    by (simp add: isoformat_def fmt_0d_4 fmt_0d_2 digit_char_def)
  from 1 2 3 show ?thesis by (intro conjI)
qed

theorem isoformat_fixed_width_witness:
  "date_new sample_env (PyInt 2078) (PyInt 2) (PyInt 8)
     = Inr \<lparr>year = 2078, month = 2, day = 8, hashcode = - 1\<rparr>
   \<and> 0 \<le> MINYEAR sample_env \<and> MAXYEAR sample_env \<le> 9999
   \<and> isoformat \<lparr>year = 2078, month = 2, day = 8, hashcode = - 1\<rparr> = ''2078-02-08''
   \<and> length (isoformat \<lparr>year = 2078, month = 2, day = 8, hashcode = - 1\<rparr>) = 10"
proof -
  have a: "date_new sample_env (PyInt 2078) (PyInt 2) (PyInt 8)
      = Inr \<lparr>year = 2078, month = 2, day = 8, hashcode = - 1\<rparr>"
    by (rule sample_date_new_2)
  have b: "0 \<le> MINYEAR sample_env" and c: "MAXYEAR sample_env \<le> 9999"
    by (simp_all add: sample_bounds)
  have d: "day \<lparr>year = 2078, month = 2, day = 8, hashcode = - 1\<rparr> \<le> 99" by simp
  from isoformat_fixed_width [OF a b c d]
  have "isoformat \<lparr>year = 2078, month = 2, day = 8, hashcode = - 1\<rparr> = ''2078-02-08''
      \<and> length (isoformat \<lparr>year = 2078, month = 2, day = 8, hashcode = - 1\<rparr>) = 10"
    by (simp add: digit_char_def)
  with a b c show ?thesis by (intro conjI) simp_all
qed

section \<open>Arithmetic\<close>

text \<open>
  C1. The specification asks that adding a number of days return the date that many days later,
  and that subtracting two dates return the number of days between them. The code does
  neither: \<^verbatim>\<open>__add__\<close> and \<^verbatim>\<open>__sub__\<close> return \<^verbatim>\<open>None\<close>, here for
  2078-9-1 plus one day and for 2078-9-2 minus 2078-9-1.
\<close>

theorem add_and_sub_return_none:
  "date_add \<lparr>year = 2078, month = 9, day = 1, hashcode = - 1\<rparr> (PyTimedelta 1) = PyNone
   \<and> date_sub \<lparr>year = 2078, month = 9, day = 2, hashcode = - 1\<rparr>
        (PyDate \<lparr>year = 2078, month = 9, day = 1, hashcode = - 1\<rparr>) = PyNone"
  by (simp add: date_add_def date_sub_def)

text \<open>
  C2. The specification asks that \<^verbatim>\<open>from_datetime_date\<close> return the date at the day offset
  from the epoch. The code returns \<^verbatim>\<open>None\<close>, the result of \<^verbatim>\<open>__add__\<close>: here
  for the Gregorian date 2021-12-16 (ordinal 738140), which is 612 days after the
  reference date of the sample environment.
\<close>

theorem from_datetime_date_returns_none:
  "from_datetime_date sample_env (PyADDate 738140) = Inr PyNone
   \<and> 738140 - REFERENCE_DATE_AD sample_env = 612"
proof -
  have "date_new sample_env (PyInt (MINYEAR sample_env)) (PyInt 1) (PyInt 1)
      = Inr \<lparr>year = 2077, month = 1, day = 1, hashcode = - 1\<rparr>"
    by (simp add: date_new_def check_date_fields_def index_py_def sample_env_def sample_eval)
  then have "from_datetime_date sample_env (PyADDate 738140) = Inr PyNone"
    by (simp add: from_datetime_date_def date_add_def)
  then show ?thesis by (simp add: sample_env_def)
qed

section \<open>Comparison with a value that is not a date\<close>





lemma operator_dates:
  "operator op a (PyDate b) = Inr (date_method op a (PyDate b))"
  by (cases op) (simp_all add: operator_def date_eq_def date_le_def date_lt_def date_ge_def date_gt_def)

section \<open>Coercion of the constructor's arguments\<close>

text \<open>The conversion of a finite float is the truncation towards zero.\<close>

lemma int_py_float:
  "\<exists>t. int_py (PyFloat m e) = Inr t
     \<and> (0 \<le> e \<longrightarrow> t = m * 2 ^ nat e)
     \<and> (e < 0 \<and> 0 \<le> m \<longrightarrow> 0 \<le> t \<and> t * 2 ^ nat (- e) \<le> m \<and> m < (t + 1) * 2 ^ nat (- e))
     \<and> (e < 0 \<and> m \<le> 0 \<longrightarrow> t \<le> 0 \<and> (t - 1) * 2 ^ nat (- e) < m \<and> m \<le> t * 2 ^ nat (- e))"
proof -
  define p :: int where "p = 2 ^ nat (- e)"
  have p: "0 < p" by (simp add: p_def)
  have pos: "0 \<le> x div p \<and> (x div p) * p \<le> x \<and> x < (x div p + 1) * p" if "0 \<le> x" for x
  proof -
    have eq: "(x div p) * p + x mod p = x" by simp
    have r: "0 \<le> x mod p" "x mod p < p" using p by simp_all
    have q: "0 \<le> x div p" using that p by (simp add: pos_imp_zdiv_nonneg_iff)
    have d: "(x div p + 1) * p = (x div p) * p + p" by (simp add: distrib_right)
    from eq r have "(x div p) * p \<le> x" "x < (x div p) * p + p" by linarith+
    with q d show ?thesis by simp
  qed
  show ?thesis
  proof (cases "0 \<le> e")
    case True
    then show ?thesis by simp
  next
    case e: False
    show ?thesis
    proof (cases "0 \<le> m")
      case True
      from pos [OF True] have "m div p \<le> 0" if "m \<le> 0"
        using that True p by (simp add: div_nonpos_pos_le0)
      with e True pos [OF True] show ?thesis
        by (auto simp: p_def [symmetric] algebra_simps)
    next
      case False
      then have "0 \<le> - m" by simp
      from pos [OF this] e False show ?thesis
        by (auto simp: p_def [symmetric] algebra_simps)
    qed
  qed
qed

text \<open>
  C9, as the code has it. The constructor converts the year, the month and the day with
  \<^verbatim>\<open>int()\<close>, from left to right, before any range validation: the first argument
  that \<^verbatim>\<open>int()\<close> rejects decides the error, whatever the ranges of the others, and
  when all three convert the date is validated as for the converted integers.
  \<^verbatim>\<open>int()\<close> fails with a \<^verbatim>\<open>TypeError\<close> on \<^verbatim>\<open>None\<close>, on
  \<^verbatim>\<open>NotImplemented\<close>, on a date, on a \<^verbatim>\<open>datetime.date\<close> and on a
  \<^verbatim>\<open>timedelta\<close>, with a \<^verbatim>\<open>ValueError\<close> on a NaN and with an
  \<^verbatim>\<open>OverflowError\<close> on an infinity; it keeps an integer and turns a boolean into 0
  or 1. A finite float \<open>fm * 2 ^ fe\<close> is not rejected: it becomes the integer \<open>t\<close>
  nearest to it among those between 0 and it, so that for \<open>fe < 0\<close> and
  \<open>p = 2 ^ (- fe)\<close>, \<open>t * p \<le> fm < (t + 1) * p\<close> when the float is not negative and
  \<open>(t - 1) * p < fm \<le> t * p\<close> when it is not positive.
\<close>

theorem constructor_coercion:
  "(int_py y = Inl e \<longrightarrow> date_new E y m d = Inl e)
   \<and> (int_py y = Inr yi \<and> int_py m = Inl e \<longrightarrow> date_new E y m d = Inl e)
   \<and> (int_py y = Inr yi \<and> int_py m = Inr mi \<and> int_py d = Inl e \<longrightarrow> date_new E y m d = Inl e)
   \<and> (int_py y = Inr yi \<and> int_py m = Inr mi \<and> int_py d = Inr di
        \<longrightarrow> date_new E y m d = date_new E (PyInt yi) (PyInt mi) (PyInt di))
   \<and> int_py PyNone = Inl TypeError_int
   \<and> int_py PyNotImplemented = Inl TypeError_int
   \<and> int_py (PyDate dt) = Inl TypeError_int
   \<and> int_py (PyADDate g) = Inl TypeError_int
   \<and> int_py (PyTimedelta n) = Inl TypeError_int
   \<and> int_py PyFloatNaN = Inl ValueError_int
   \<and> int_py PyFloatInf = Inl OverflowError_int
   \<and> int_py (PyInt i) = Inr i
   \<and> int_py (PyBool b) = Inr (if b then 1 else 0)
   \<and> (\<exists>t. int_py (PyFloat fm fe) = Inr t
        \<and> (0 \<le> fe \<longrightarrow> t = fm * 2 ^ nat fe)
        \<and> (fe < 0 \<and> 0 \<le> fm \<longrightarrow>
              0 \<le> t \<and> t * 2 ^ nat (- fe) \<le> fm \<and> fm < (t + 1) * 2 ^ nat (- fe))
        \<and> (fe < 0 \<and> fm \<le> 0 \<longrightarrow>
              t \<le> 0 \<and> (t - 1) * 2 ^ nat (- fe) < fm \<and> fm \<le> t * 2 ^ nat (- fe)))
   \<and> (0 \<le> k \<longrightarrow> int_py (PyFloat (2 * k + 1) (- 1)) = Inr k)"
proof -
  have 1: "int_py y = Inl e \<longrightarrow> date_new E y m d = Inl e"
    by (simp add: date_new_def)
  have 2: "int_py y = Inr yi \<and> int_py m = Inl e \<longrightarrow> date_new E y m d = Inl e"
    by (simp add: date_new_def)
  have 3: "int_py y = Inr yi \<and> int_py m = Inr mi \<and> int_py d = Inl e \<longrightarrow> date_new E y m d = Inl e"
    by (simp add: date_new_def)
  have 4: "int_py y = Inr yi \<and> int_py m = Inr mi \<and> int_py d = Inr di
        \<longrightarrow> date_new E y m d = date_new E (PyInt yi) (PyInt mi) (PyInt di)"
    by (simp add: date_new_def)
  have 5: "int_py PyNone = Inl TypeError_int" "int_py PyNotImplemented = Inl TypeError_int"
    "int_py (PyDate dt) = Inl TypeError_int" "int_py (PyADDate g) = Inl TypeError_int"
    "int_py (PyTimedelta n) = Inl TypeError_int" "int_py PyFloatNaN = Inl ValueError_int"
    "int_py PyFloatInf = Inl OverflowError_int" "int_py (PyInt i) = Inr i"
    "int_py (PyBool b) = Inr (if b then 1 else 0)"
    by simp_all
  have 6: "0 \<le> k \<longrightarrow> int_py (PyFloat (2 * k + 1) (- 1)) = Inr k"
    by simp
  from 1 2 3 4 5 int_py_float [of fm fe] 6 show ?thesis
    by (intro conjI)
qed

theorem constructor_coercion_witness:
  "date_new sample_env PyNone (PyInt 13) (PyInt 40) = Inl TypeError_int
   \<and> date_new sample_env (PyInt 2080) PyNone (PyInt 40) = Inl TypeError_int
   \<and> date_new sample_env (PyInt 2080) (PyInt 13) PyFloatNaN = Inl ValueError_int
   \<and> date_new sample_env (PyFloat 4157 (- 1)) (PyBool True) (PyInt 31)
       = date_new sample_env (PyInt 2078) (PyInt 1) (PyInt 31)
   \<and> int_py (PyFloat (- 5) (- 1)) = Inr (- 2)
   \<and> int_py (PyFloat (2 * 2078 + 1) (- 1)) = Inr 2078"
proof -
  note t = constructor_coercion [of _ _ sample_env _ _ _ _ _
      "\<lparr>year = 2078, month = 9, day = 1, hashcode = - 1\<rparr>" 0 0 0 True "- 5" "- 1" 2078]
  have a: "int_py PyNone = Inl TypeError_int" by simp
  have b: "int_py (PyInt 2080) = Inr 2080 \<and> int_py PyNone = Inl TypeError_int" by simp
  have c: "int_py (PyInt 2080) = Inr 2080 \<and> int_py (PyInt 13) = Inr 13
      \<and> int_py PyFloatNaN = Inl ValueError_int" by simp
  have d: "int_py (PyFloat 4157 (- 1)) = Inr 2078 \<and> int_py (PyBool True) = Inr 1
      \<and> int_py (PyInt 31) = Inr 31" by simp
  have e: "(0::int) \<le> 2078" by simp
  from t [of PyNone TypeError_int "PyInt 13" "PyInt 40" 0 0 0]
  have "int_py PyNone = Inl TypeError_int
      \<longrightarrow> date_new sample_env PyNone (PyInt 13) (PyInt 40) = Inl TypeError_int"
    by (elim conjE)
  with a have 1: "date_new sample_env PyNone (PyInt 13) (PyInt 40) = Inl TypeError_int"
    by (rule rev_mp)
  from t [of "PyInt 2080" TypeError_int PyNone "PyInt 40" 2080 0 0]
  have "int_py (PyInt 2080) = Inr 2080 \<and> int_py PyNone = Inl TypeError_int
      \<longrightarrow> date_new sample_env (PyInt 2080) PyNone (PyInt 40) = Inl TypeError_int"
    by (elim conjE)
  with b have 2: "date_new sample_env (PyInt 2080) PyNone (PyInt 40) = Inl TypeError_int"
    by (rule rev_mp)
  from t [of "PyInt 2080" ValueError_int "PyInt 13" PyFloatNaN 2080 13 0]
  have "int_py (PyInt 2080) = Inr 2080 \<and> int_py (PyInt 13) = Inr 13
      \<and> int_py PyFloatNaN = Inl ValueError_int
      \<longrightarrow> date_new sample_env (PyInt 2080) (PyInt 13) PyFloatNaN = Inl ValueError_int"
    by (elim conjE)
  with c have 3: "date_new sample_env (PyInt 2080) (PyInt 13) PyFloatNaN = Inl ValueError_int"
    by (rule rev_mp)
  from t [of "PyFloat 4157 (- 1)" TypeError_int "PyBool True" "PyInt 31" 2078 1 31]
  have "int_py (PyFloat 4157 (- 1)) = Inr 2078 \<and> int_py (PyBool True) = Inr 1
      \<and> int_py (PyInt 31) = Inr 31
      \<longrightarrow> date_new sample_env (PyFloat 4157 (- 1)) (PyBool True) (PyInt 31)
          = date_new sample_env (PyInt 2078) (PyInt 1) (PyInt 31)"
    by (elim conjE)
  with d have 4: "date_new sample_env (PyFloat 4157 (- 1)) (PyBool True) (PyInt 31)
       = date_new sample_env (PyInt 2078) (PyInt 1) (PyInt 31)"
    by (rule rev_mp)
  note t0 = t [of PyNone TypeError_int PyNone PyNone 0 0 0]
  from t0 have "(0::int) \<le> 2078 \<longrightarrow> int_py (PyFloat (2 * 2078 + 1) (- 1)) = Inr 2078"
    by (elim conjE)
  with e have 5: "int_py (PyFloat (2 * 2078 + 1) (- 1)) = Inr 2078"
    by (rule rev_mp)
  from t0 have "\<exists>t. int_py (PyFloat (- 5) (- 1)) = Inr t
        \<and> (0 \<le> (- 1::int) \<longrightarrow> t = - 5 * 2 ^ nat (- 1))
        \<and> ((- 1::int) < 0 \<and> 0 \<le> (- 5::int) \<longrightarrow>
              0 \<le> t \<and> t * 2 ^ nat (- (- 1)) \<le> - 5 \<and> - 5 < (t + 1) * 2 ^ nat (- (- 1)))
        \<and> ((- 1::int) < 0 \<and> (- 5::int) \<le> 0 \<longrightarrow>
              t \<le> 0 \<and> (t - 1) * 2 ^ nat (- (- 1)) < - 5 \<and> - 5 \<le> t * 2 ^ nat (- (- 1)))"
    by (elim conjE)
  then obtain t where t: "int_py (PyFloat (- 5) (- 1)) = Inr t"
    and bnd: "(t - 1) * 2 < - 5" "- 5 \<le> t * 2"
    by auto
  from bnd have "t = - 2" by presburger
  with t have 6: "int_py (PyFloat (- 5) (- 1)) = Inr (- 2)" by simp
  from 1 2 3 4 6 5 show ?thesis by (intro conjI)
qed

text \<open>
  The property as the specification states it fails: the float 2078.5 is not integral, and
  the constructor accepts it as the year 2078.
\<close>

theorem constructor_coercion_counterexample:
  "date_new sample_env (PyFloat 4157 (- 1)) (PyInt 9) (PyInt 1)
     = Inr \<lparr>year = 2078, month = 9, day = 1, hashcode = - 1\<rparr>"
  by (simp add: date_new_def check_date_fields_def index_py_def sample_bounds sample_dim_2078_9)

section \<open>The invariant of the dates and their immutability\<close>









section \<open>Comparison and the day ordinal\<close>


lemma set_months_before:
  assumes "p \<in> set (months_before lo y m)"
  shows "lo \<le> fst p \<and> fst p \<le> y \<and> 1 \<le> snd p \<and> snd p \<le> 12 \<or> p \<in> Pair y ` {1..m - 1}"
  using assms by (auto simp: months_before_def)



















end
